theory Spec2Isabelle
  imports Main
begin

section \<open>Values and diagnostics of the plugin framework\<close>

text \<open>
  An attribute value of the framework (\<^verbatim>\<open>types.String\<close>, \<^verbatim>\<open>fwtypes.MapOfString\<close>) is
  null, unknown, or a known value.
\<close>

datatype 'a tfvalue = Null | Unknown | Value 'a

fun IsNull :: "'a tfvalue \<Rightarrow> bool" where
  "IsNull Null = True"
| "IsNull _ = False"

fun IsUnknown :: "'a tfvalue \<Rightarrow> bool" where
  "IsUnknown Unknown = True"
| "IsUnknown _ = False"

text \<open>\<^verbatim>\<open>ValueString\<close> is the empty string for a null or unknown value.\<close>

fun ValueString :: "string tfvalue \<Rightarrow> string" where
  "ValueString (Value s) = s"
| "ValueString _ = []"

datatype severity = SeverityError | SeverityWarning

text \<open>
  A path is a root attribute or the element of a map under a key. The step of a key is
  held as the framework prints it: the key quoted as \<^verbatim>\<open>%q\<close> does (\<open>Path_AtMapKey\<close>
  below).
\<close>

datatype path = Root string | AtMapKey path string

text \<open>A number in decimal (\<^verbatim>\<open>%d\<close>).\<close>

fun Itoa :: "nat \<Rightarrow> string" where
  "Itoa n = (if n < 10 then [char_of (48 + n)] else Itoa (n div 10) @ [char_of (48 + n mod 10)])"

record diagnostic =
  Severity :: severity
  Summary :: string
  Detail :: string
  AttrPath :: "path option"

definition NewErrorDiagnostic :: "string \<Rightarrow> string \<Rightarrow> diagnostic" where
  "NewErrorDiagnostic summary detail =
     \<lparr>Severity = SeverityError, Summary = summary, Detail = detail, AttrPath = None\<rparr>"

definition NewWarningDiagnostic :: "string \<Rightarrow> string \<Rightarrow> diagnostic" where
  "NewWarningDiagnostic summary detail =
     \<lparr>Severity = SeverityWarning, Summary = summary, Detail = detail, AttrPath = None\<rparr>"

definition NewAttributeErrorDiagnostic :: "path \<Rightarrow> string \<Rightarrow> string \<Rightarrow> diagnostic" where
  "NewAttributeErrorDiagnostic p summary detail =
     \<lparr>Severity = SeverityError, Summary = summary, Detail = detail, AttrPath = Some p\<rparr>"

text \<open>\<^verbatim>\<open>Diagnostics.HasError\<close>: some diagnostic has error severity.\<close>

definition HasError :: "diagnostic list \<Rightarrow> bool" where
  "HasError ds = list_ex (\<lambda>d. Severity d = SeverityError) ds"

fun path_string :: "path \<Rightarrow> string" where
  "path_string (Root n) = n"
| "path_string (AtMapKey p quoted) = path_string p @ ''['' @ quoted @ '']''"

text \<open>\<^verbatim>\<open>validatordiag.InvalidAttributeValueDiagnostic(path, description, value)\<close>.\<close>

definition InvalidAttributeValueDiagnostic :: "path \<Rightarrow> string \<Rightarrow> string \<Rightarrow> diagnostic" where
  "InvalidAttributeValueDiagnostic p description v =
     NewAttributeErrorDiagnostic p ''Invalid Attribute Value''
       (''Attribute '' @ path_string p @ '' '' @ description @ '', got: '' @ v)"

section \<open>The resource model and the API types\<close>

text \<open>
  \<^verbatim>\<open>managedLoginTermsResourceModel\<close>. A map value is the list of its entries (the keys of
  a map are distinct; the order is the order in which the entries are visited).
\<close>

type_synonym tfstring = "string tfvalue"
type_synonym tfmap = "(string \<times> tfstring) list tfvalue"

record managedLoginTermsResourceModel =
  Region :: tfstring
  ClientID :: tfstring
  Enforcement :: tfstring
  Links :: tfmap
  ManagedLoginTermsID :: tfstring
  CreationDate :: tfstring
  LastModifiedDate :: tfstring
  TermsName :: tfstring
  TermsSource :: tfstring
  UserPoolID :: tfstring

text \<open>
  What \<^verbatim>\<open>request.Plan.Get\<close>, \<^verbatim>\<open>request.State.Get\<close> and \<^verbatim>\<open>req.Config.Get\<close> give: the
  diagnostics of decoding and the decoded model.
\<close>

type_synonym tfsdk_data = "diagnostic list \<times> managedLoginTermsResourceModel"

text \<open>The SDK types: a pointer field is an option, a Go map a list of entries.\<close>

record TermsType =
  ClientId :: "string option"
  CreationDate :: "string option"
  Enforcement :: string
  LastModifiedDate :: "string option"
  Links :: "(string \<times> string) list"
  TermsId :: "string option"
  TermsName :: "string option"
  TermsSource :: string
  UserPoolId :: "string option"

record CreateTermsInput =
  ClientId :: "string option"
  Enforcement :: string
  Links :: "(string \<times> string) list"
  TermsName :: "string option"
  TermsSource :: string
  UserPoolId :: "string option"

record UpdateTermsInput =
  Enforcement :: string
  Links :: "(string \<times> string) list"
  TermsId :: "string option"
  TermsName :: "string option"
  TermsSource :: string
  UserPoolId :: "string option"

record DescribeTermsInput =
  TermsId :: "string option"
  UserPoolId :: "string option"

record DeleteTermsInput =
  TermsId :: "string option"
  UserPoolId :: "string option"

record CreateTermsOutput =
  Terms :: "TermsType option"

record UpdateTermsOutput =
  Terms :: "TermsType option"

record DescribeTermsOutput =
  Terms :: "TermsType option"

text \<open>The request an error remembers (\<^verbatim>\<open>LastRequest any\<close>).\<close>

datatype request =
  DescribeTermsRequest DescribeTermsInput
| CreateTermsRequest CreateTermsInput
| UpdateTermsRequest UpdateTermsInput

text \<open>
  Go errors. An API error is a \<^verbatim>\<open>ResourceNotFoundException\<close> or another error, each with
  its message; \<open>Wrapped\<close> is an error that wraps another one (\<^verbatim>\<open>Unwrap\<close>);
  \<open>Errorf\<close> is an error made by \<^verbatim>\<open>fmt.Errorf\<close>;
  \<open>NotFoundError\<close> is the SDK's \<^verbatim>\<open>retry.NotFoundError{LastError, LastRequest}\<close>.
\<close>

datatype error =
  ResourceNotFoundException string
| ApiError string
| Errorf string
| Wrapped string error
| NotFoundError error request
| EmptyResultError request

fun Error :: "error \<Rightarrow> string" where
  "Error (ResourceNotFoundException m) = m"
| "Error (ApiError m) = m"
| "Error (Errorf m) = m"
| "Error (Wrapped m e) = m"
| "Error (NotFoundError e r) = ''couldn't find resource''"
| "Error (EmptyResultError r) = ''empty result''"

text \<open>
  Modelled from the spec: \<^verbatim>\<open>errs.IsA[*awstypes.ResourceNotFoundException]\<close> (package
  \<^verbatim>\<open>internal/errs\<close> is not among the sources). It holds when the error is, or wraps, a
  \<^verbatim>\<open>ResourceNotFoundException\<close>, the "backing object is missing" of the spec; a nil error
  is none.
\<close>

fun is_ResourceNotFoundException :: "error \<Rightarrow> bool" where
  "is_ResourceNotFoundException (ResourceNotFoundException m) = True"
| "is_ResourceNotFoundException (Wrapped m e) = is_ResourceNotFoundException e"
| "is_ResourceNotFoundException (NotFoundError e r) = is_ResourceNotFoundException e"
| "is_ResourceNotFoundException _ = False"

definition IsA_ResourceNotFoundException :: "error option \<Rightarrow> bool" where
  "IsA_ResourceNotFoundException err =
     (case err of None \<Rightarrow> False | Some e \<Rightarrow> is_ResourceNotFoundException e)"

text \<open>
  Modelled from the spec: \<^verbatim>\<open>tfresource.NewEmptyResultError\<close> (package
  \<^verbatim>\<open>internal/tfresource\<close> is not among the sources): the error of a response that holds
  no object, remembering the request.
\<close>

definition NewEmptyResultError :: "request \<Rightarrow> error" where
  "NewEmptyResultError r = EmptyResultError r"

text \<open>
  Modelled from the spec: \<^verbatim>\<open>retry.NotFound\<close> (package \<^verbatim>\<open>internal/retry\<close> is not among
  the sources): the error is, or wraps, a not-found error; an empty result counts as
  not found. A nil error is none.
\<close>

fun is_NotFound :: "error \<Rightarrow> bool" where
  "is_NotFound (NotFoundError e r) = True"
| "is_NotFound (EmptyResultError r) = True"
| "is_NotFound (Wrapped m e) = is_NotFound e"
| "is_NotFound _ = False"

definition NotFound :: "error option \<Rightarrow> bool" where
  "NotFound err = (case err of None \<Rightarrow> False | Some e \<Rightarrow> is_NotFound e)"

section \<open>The API client\<close>

text \<open>
  An operation of the client returns an output pointer and an error, either of which
  may be nil. Every handler calls the client at most once, so an operation is a function
  of its input; the calls a handler makes are recorded.
\<close>

record Client =
  CreateTerms :: "CreateTermsInput \<Rightarrow> CreateTermsOutput option \<times> error option"
  DescribeTerms :: "DescribeTermsInput \<Rightarrow> DescribeTermsOutput option \<times> error option"
  UpdateTerms :: "UpdateTermsInput \<Rightarrow> UpdateTermsOutput option \<times> error option"
  DeleteTerms :: "DeleteTermsInput \<Rightarrow> unit option \<times> error option"

datatype api_call =
  CreateTermsCall CreateTermsInput
| DescribeTermsCall DescribeTermsInput
| UpdateTermsCall UpdateTermsInput
| DeleteTermsCall DeleteTermsInput

section \<open>findManagedLoginTermsByTwoPartKey\<close>

definition findManagedLoginTermsByTwoPartKey ::
  "Client \<Rightarrow> string \<Rightarrow> string \<Rightarrow> (TermsType option \<times> error option) \<times> api_call list" where
  "findManagedLoginTermsByTwoPartKey conn userPoolID termsID =
     (let input = \<lparr>DescribeTermsInput.TermsId = Some termsID,
                    DescribeTermsInput.UserPoolId = Some userPoolID\<rparr>;
          (output, err) = DescribeTerms conn input;
          calls = [DescribeTermsCall input]
      in case err of
           Some e \<Rightarrow>
             if IsA_ResourceNotFoundException (Some e) then
               ((None, Some (NotFoundError e (DescribeTermsRequest input))), calls)
             else ((None, Some e), calls)
         | None \<Rightarrow>
             (case output of
                None \<Rightarrow> ((None, Some (NewEmptyResultError (DescribeTermsRequest input))), calls)
              | Some out \<Rightarrow>
                  (case DescribeTermsOutput.Terms out of
                     None \<Rightarrow>
                       ((None, Some (NewEmptyResultError (DescribeTermsRequest input))), calls)
                   | Some terms \<Rightarrow> ((Some terms, None), calls))))"

section \<open>The handlers\<close>

text \<open>
  A response holds the diagnostics and the state. The state of the Create, Read, Update
  and Delete responses is the stored model (\<open>None\<close> once the resource is removed); the
  state of the import response maps an attribute to the value set for it.
\<close>

record 's Response =
  Diagnostics :: "diagnostic list"
  State :: 's

definition Append :: "'s Response \<Rightarrow> diagnostic list \<Rightarrow> 's Response" where
  "Append response ds = response\<lparr>Diagnostics := Diagnostics response @ ds\<rparr>"

definition AddError :: "'s Response \<Rightarrow> string \<Rightarrow> string \<Rightarrow> 's Response" where
  "AddError response summary detail = Append response [NewErrorDiagnostic summary detail]"

text \<open>\<^verbatim>\<open>State.Set\<close> stores the model, \<^verbatim>\<open>State.RemoveResource\<close> removes it,
  \<^verbatim>\<open>State.SetAttribute\<close> sets one attribute; none reports a diagnostic here.\<close>

definition State_Set ::
  "managedLoginTermsResourceModel option Response \<Rightarrow> managedLoginTermsResourceModel \<Rightarrow>
   managedLoginTermsResourceModel option Response" where
  "State_Set response data = Append (response\<lparr>State := Some data\<rparr>) []"

definition State_RemoveResource ::
  "managedLoginTermsResourceModel option Response \<Rightarrow>
   managedLoginTermsResourceModel option Response" where
  "State_RemoveResource response = response\<lparr>State := None\<rparr>"

definition State_SetAttribute ::
  "(path \<rightharpoonup> string) Response \<Rightarrow> path \<Rightarrow> string \<Rightarrow> (path \<rightharpoonup> string) Response" where
  "State_SetAttribute response p v = Append (response\<lparr>State := (State response)(p \<mapsto> v)\<rparr>) []"

text \<open>
  \<^verbatim>\<open>fwflex.Expand\<close> and \<^verbatim>\<open>fwflex.Flatten\<close> copy between the model and the SDK types by
  reflection; package \<^verbatim>\<open>internal/framework/flex\<close> is not among the sources. The handlers
  are modelled for any such functions: each gives its diagnostics and the filled target.
\<close>

record Flex =
  ExpandCreateTerms :: "managedLoginTermsResourceModel \<Rightarrow> diagnostic list \<times> CreateTermsInput"
  ExpandUpdateTerms :: "managedLoginTermsResourceModel \<Rightarrow> diagnostic list \<times> UpdateTermsInput"
  Flatten ::
    "TermsType \<Rightarrow> managedLoginTermsResourceModel \<Rightarrow>
     diagnostic list \<times> managedLoginTermsResourceModel"

text \<open>
  Modelled from the spec: \<^verbatim>\<open>fwflex.StringToFramework\<close> and
  \<^verbatim>\<open>fwflex.StringValueFromFramework\<close> (package \<^verbatim>\<open>internal/framework/flex\<close> is not among
  the sources): the conversions between a string pointer of the SDK and a string value of
  the framework, by which the generated ID reaches the state and the identity the API.
\<close>

definition StringToFramework :: "string option \<Rightarrow> tfstring" where
  "StringToFramework v = (case v of None \<Rightarrow> Null | Some s \<Rightarrow> Value s)"

definition StringValueFromFramework :: "tfstring \<Rightarrow> string" where
  "StringValueFromFramework v = ValueString v"

text \<open>
  Modelled from the spec: \<^verbatim>\<open>fwdiag.NewResourceNotFoundWarningDiagnostic\<close> and
  \<^verbatim>\<open>fwdiag.NewParsingResourceIDErrorDiagnostic\<close> (package \<^verbatim>\<open>internal/errs/fwdiag\<close> is
  not among the sources): a warning that the object is already gone, and an error that
  the import ID does not parse, each with the error's text.
\<close>

definition NewResourceNotFoundWarningDiagnostic :: "error \<Rightarrow> diagnostic" where
  "NewResourceNotFoundWarningDiagnostic err =
     NewWarningDiagnostic ''AWS resource not found during refresh''
       (''Automatically removing from Terraform State instead of returning the error, ''
        @ ''which may trigger resource recreation. Original error: '' @ Error err)"

definition NewParsingResourceIDErrorDiagnostic :: "error \<Rightarrow> diagnostic" where
  "NewParsingResourceIDErrorDiagnostic err =
     NewErrorDiagnostic ''Parsing Resource ID'' (Error err)"

type_synonym CrudResponse = "managedLoginTermsResourceModel option Response"

definition Create ::
  "Flex \<Rightarrow> Client \<Rightarrow> tfsdk_data \<Rightarrow> CrudResponse \<Rightarrow> CrudResponse \<times> api_call list" where
  "Create fx conn plan response0 =
     (let (planDiags, data) = plan;
          response1 = Append response0 planDiags
      in if HasError (Diagnostics response1) then (response1, [])
         else
           let (expandDiags, input) = ExpandCreateTerms fx data;
               response2 = Append response1 expandDiags
           in if HasError (Diagnostics response2) then (response2, [])
              else
                let (output, err) = CreateTerms conn input;
                    calls = [CreateTermsCall input];
                    empty = AddError response2 ''creating Cognito Managed Login Terms''
                              (Error (NewEmptyResultError (CreateTermsRequest input)))
                in case err of
                     Some e \<Rightarrow>
                       (AddError response2
                          (''creating Cognito Managed Login Terms ('' @ ValueString (ClientID data)
                             @ '')'')
                          (Error e), calls)
                   | None \<Rightarrow>
                       (case output of
                          None \<Rightarrow> (empty, calls)
                        | Some out \<Rightarrow>
                            (case CreateTermsOutput.Terms out of
                               None \<Rightarrow> (empty, calls)
                             | Some terms \<Rightarrow>
                                 let (flattenDiags, data1) = Flatten fx terms data;
                                     response3 = Append response2 flattenDiags
                                 in if HasError (Diagnostics response3) then (response3, calls)
                                    else
                                      let data2 = data1\<lparr>ManagedLoginTermsID :=
                                                    StringToFramework (TermsType.TermsId terms)\<rparr>
                                      in (State_Set response3 data2, calls))))"

text \<open>
  \<open>Read\<close> dereferences \<^verbatim>\<open>terms\<close> once the error is nil; \<open>None\<close> is the panic of a nil
  pointer there.
\<close>

definition Read ::
  "Flex \<Rightarrow> Client \<Rightarrow> tfsdk_data \<Rightarrow> CrudResponse \<Rightarrow> (CrudResponse \<times> api_call list) option" where
  "Read fx conn state response0 =
     (let (stateDiags, data) = state;
          response1 = Append response0 stateDiags
      in if HasError (Diagnostics response1) then Some (response1, [])
         else
           let userPoolID = StringValueFromFramework (UserPoolID data);
               termsID = StringValueFromFramework (ManagedLoginTermsID data);
               ((terms, err), calls) = findManagedLoginTermsByTwoPartKey conn userPoolID termsID
           in case err of
                Some e \<Rightarrow>
                  if NotFound (Some e) then
                    Some (State_RemoveResource
                            (Append response1 [NewResourceNotFoundWarningDiagnostic e]), calls)
                  else
                    Some (AddError response1
                            (''reading Cognito Managed Login Terms ('' @ termsID @ '')'')
                            (Error e), calls)
              | None \<Rightarrow>
                  (case terms of
                     None \<Rightarrow> None
                   | Some t \<Rightarrow>
                       let (flattenDiags, data1) = Flatten fx t data;
                           response2 = Append response1 flattenDiags
                       in if HasError (Diagnostics response2) then Some (response2, calls)
                          else
                            let data2 = data1\<lparr>ManagedLoginTermsID :=
                                          StringToFramework (TermsType.TermsId t)\<rparr>
                            in Some (State_Set response2 data2, calls)))"

definition Update ::
  "Flex \<Rightarrow> Client \<Rightarrow> tfsdk_data \<Rightarrow> tfsdk_data \<Rightarrow> CrudResponse \<Rightarrow>
   CrudResponse \<times> api_call list" where
  "Update fx conn planData stateData response0 =
     (let (planDiags, plan) = planData;
          response1 = Append response0 planDiags
      in if HasError (Diagnostics response1) then (response1, [])
         else
           let (stateDiags, state) = stateData;
               response2 = Append response1 stateDiags
           in if HasError (Diagnostics response2) then (response2, [])
              else
                let (expandDiags, input0) = ExpandUpdateTerms fx plan;
                    response3 = Append response2 expandDiags
                in if HasError (Diagnostics response3) then (response3, [])
                   else if IsNull (ManagedLoginTermsID state)
                           \<or> IsUnknown (ManagedLoginTermsID state) then
                     (AddError response3 ''updating Cognito Managed Login Terms''
                        ''missing managed_login_terms_id in state'', [])
                   else
                     let input = input0\<lparr>UpdateTermsInput.TermsId :=
                                   Some (ValueString (ManagedLoginTermsID state))\<rparr>;
                         (output, err) = UpdateTerms conn input;
                         calls = [UpdateTermsCall input];
                         empty = AddError response3 ''updating Cognito Managed Login Terms''
                                   (Error (NewEmptyResultError (UpdateTermsRequest input)))
                     in case err of
                          Some e \<Rightarrow>
                            (AddError response3
                               (''updating Cognito Managed Login Terms (''
                                  @ ValueString (ManagedLoginTermsID state) @ '')'')
                               (Error e), calls)
                        | None \<Rightarrow>
                            (case output of
                               None \<Rightarrow> (empty, calls)
                             | Some out \<Rightarrow>
                                 (case UpdateTermsOutput.Terms out of
                                    None \<Rightarrow> (empty, calls)
                                  | Some terms \<Rightarrow>
                                      let (flattenDiags, plan1) = Flatten fx terms plan;
                                          response4 = Append response3 flattenDiags
                                      in if HasError (Diagnostics response4) then
                                           (response4, calls)
                                         else
                                           let plan2 = plan1\<lparr>ManagedLoginTermsID :=
                                                         StringToFramework
                                                           (TermsType.TermsId terms)\<rparr>
                                           in (State_Set response4 plan2, calls))))"

definition Delete ::
  "Client \<Rightarrow> tfsdk_data \<Rightarrow> CrudResponse \<Rightarrow> CrudResponse \<times> api_call list" where
  "Delete conn state response0 =
     (let (stateDiags, data) = state;
          response1 = Append response0 stateDiags
      in if HasError (Diagnostics response1) then (response1, [])
         else
           let userPoolID = StringValueFromFramework (UserPoolID data);
               termsID = StringValueFromFramework (ManagedLoginTermsID data);
               input = \<lparr>DeleteTermsInput.TermsId = Some termsID,
                        DeleteTermsInput.UserPoolId = Some userPoolID\<rparr>;
               (output, err) = DeleteTerms conn input;
               calls = [DeleteTermsCall input]
           in if IsA_ResourceNotFoundException err then (response1, calls)
              else
                (case err of
                   Some e \<Rightarrow>
                     (AddError response1
                        (''deleting Cognito Managed Login Terms ('' @ termsID @ '')'')
                        (Error e), calls)
                 | None \<Rightarrow> (response1, calls)))"

section \<open>Import\<close>

text \<open>\<^verbatim>\<open>strings.Split(s, sep)\<close> for a separator of one character: the pieces between the
  separators, one more than there are separators.\<close>

fun Split :: "string \<Rightarrow> char \<Rightarrow> string list" where
  "Split [] sep = [[]]"
| "Split (c # cs) sep =
     (if c = sep then [] # Split cs sep
      else (case Split cs sep of
              [] \<Rightarrow> [[c]]
            | p # ps \<Rightarrow> (c # p) # ps))"

definition ResourceIdSeparator :: char where
  "ResourceIdSeparator = CHR '',''"

text \<open>
  Modelled from the spec: \<^verbatim>\<open>intflex.ExpandResourceId(id, partCount, allowEmptyPart)\<close>
  (package \<^verbatim>\<open>internal/flex\<close> is not among the sources). The spec gives a two-part
  composite identity used for import; the parts are separated by a comma. The ID is split
  at the separator; it is an error to have one part only, or a number of parts other
  than \<open>partCount\<close>, or, unless \<open>allowEmptyPart\<close>, a blank part. \<open>ImportState\<close> passes
  \<open>true\<close> for \<open>allowEmptyPart\<close>.
\<close>

text \<open>A list as \<^verbatim>\<open>%v\<close> prints it: the elements between brackets, separated by spaces.\<close>

fun join_spaces :: "string list \<Rightarrow> string" where
  "join_spaces [] = []"
| "join_spaces [x] = x"
| "join_spaces (x # y # ys) = x @ '' '' @ join_spaces (y # ys)"

definition fmt_list :: "string list \<Rightarrow> string" where
  "fmt_list xs = ''['' @ join_spaces xs @ '']''"

definition ExpandResourceId :: "string \<Rightarrow> nat \<Rightarrow> bool \<Rightarrow> error + string list" where
  "ExpandResourceId rid partCount allowEmptyPart =
     (let idParts = Split rid ResourceIdSeparator;
          emptyParts = filter (\<lambda>index. idParts ! index = []) [0..<length idParts]
      in if length idParts \<le> 1 then
           Inl (Errorf (''unexpected format for ID ('' @ fmt_list idParts
                          @ ''), expected more than one part''))
         else if length idParts \<noteq> partCount then
           Inl (Errorf (''unexpected format for ID ('' @ rid @ ''), expected (''
                          @ Itoa partCount @ '') parts separated by (''
                          @ [ResourceIdSeparator] @ '')''))
         else if \<not> allowEmptyPart \<and> emptyParts \<noteq> [] then
           Inl (Errorf (''unexpected format for ID ('' @ rid
                          @ ''), the following id parts indexes are blank (''
                          @ fmt_list (map Itoa emptyParts) @ '')''))
         else Inr idParts)"

definition AttrUserPoolID :: string where
  "AttrUserPoolID = ''user_pool_id''"

type_synonym ImportStateResponse = "(path \<rightharpoonup> string) Response"

text \<open>\<open>None\<close> is the panic of an index out of range at \<^verbatim>\<open>parts[0]\<close> or \<^verbatim>\<open>parts[1]\<close>.\<close>

definition ImportState :: "string \<Rightarrow> ImportStateResponse \<Rightarrow> ImportStateResponse option" where
  "ImportState rid response =
     (let managedLoginTermsIDParts = 2
      in case ExpandResourceId rid managedLoginTermsIDParts True of
           Inl err \<Rightarrow> Some (Append response [NewParsingResourceIDErrorDiagnostic err])
         | Inr parts \<Rightarrow>
             (case parts of
                p0 # p1 # rest \<Rightarrow>
                  Some (State_SetAttribute
                          (State_SetAttribute response (Root AttrUserPoolID) p0)
                          (Root ''managed_login_terms_id'') p1)
              | _ \<Rightarrow> None))"

section \<open>The cross-field validator\<close>

definition MarkdownDescription :: string where
  "MarkdownDescription = ''links must include a cognito:default entry''"

text \<open>
  \<^verbatim>\<open>ElementsAs(ctx, &links, allowUnhandled)\<close> into a \<^verbatim>\<open>map[string]string\<close>: every entry is
  converted; a null or unknown element becomes the empty string when \<open>allowUnhandled\<close>
  and is an error otherwise.
\<close>

definition ElementsAs ::
  "(string \<times> tfstring) list \<Rightarrow> bool \<Rightarrow> diagnostic list \<times> (string \<rightharpoonup> string)" where
  "ElementsAs elements allowUnhandled =
     (if allowUnhandled \<or> list_all (\<lambda>(k, v). \<not> IsNull v \<and> \<not> IsUnknown v) elements then
        ([], map_of (map (\<lambda>(k, v). (k, ValueString v)) elements))
      else ([NewErrorDiagnostic ''Value Conversion Error'' ''unhandled null or unknown value''],
            Map.empty))"

definition ValidateResource :: "tfsdk_data \<Rightarrow> diagnostic list \<Rightarrow> diagnostic list" where
  "ValidateResource cfg diags0 =
     (let (configDiags, config) = cfg;
          diags1 = diags0 @ configDiags
      in if HasError diags1 then diags1
         else
           (case managedLoginTermsResourceModel.Links config of
              Unknown \<Rightarrow> diags1
            | Null \<Rightarrow> diags1
            | Value elements \<Rightarrow>
                let (elementDiags, links) = ElementsAs elements True;
                    diags2 = diags1 @ elementDiags
                in if HasError diags2 then diags2
                   else if links ''cognito:default'' = None then
                     diags2 @ [InvalidAttributeValueDiagnostic (Root ''links'')
                                 MarkdownDescription ''missing cognito:default'']
                   else diags2))"

section \<open>Strings, UTF-8 and quoting\<close>

text \<open>
  A string is the list of its bytes, so \<open>length\<close> is Go's \<^verbatim>\<open>len\<close>. The regular
  expressions and \<^verbatim>\<open>%q\<close> read a string rune by rune, as \<^verbatim>\<open>utf8.DecodeRuneInString\<close>
  decodes it: a byte that starts no valid encoding gives \<open>RuneError\<close> with width 1. A rune
  is its code point.
\<close>

definition RuneError :: nat where
  "RuneError = 0xFFFD"

definition decode2 :: "nat \<Rightarrow> nat \<Rightarrow> nat \<times> nat" where
  "decode2 s0 s1 =
     (if s1 < 0x80 \<or> 0xBF < s1 then (RuneError, 1)
      else ((s0 - 0xC0) * 64 + (s1 - 0x80), 2))"

definition decode3 :: "nat \<Rightarrow> nat \<Rightarrow> nat \<Rightarrow> nat \<times> nat" where
  "decode3 s0 s1 s2 =
     (if s1 < (if s0 = 0xE0 then 0xA0 else 0x80) \<or> (if s0 = 0xED then 0x9F else 0xBF) < s1 then
        (RuneError, 1)
      else if s2 < 0x80 \<or> 0xBF < s2 then (RuneError, 1)
      else ((s0 - 0xE0) * 4096 + (s1 - 0x80) * 64 + (s2 - 0x80), 3))"

definition decode4 :: "nat \<Rightarrow> nat \<Rightarrow> nat \<Rightarrow> nat \<Rightarrow> nat \<times> nat" where
  "decode4 s0 s1 s2 s3 =
     (if s1 < (if s0 = 0xF0 then 0x90 else 0x80) \<or> (if s0 = 0xF4 then 0x8F else 0xBF) < s1 then
        (RuneError, 1)
      else if s2 < 0x80 \<or> 0xBF < s2 then (RuneError, 1)
      else if s3 < 0x80 \<or> 0xBF < s3 then (RuneError, 1)
      else ((s0 - 0xF0) * 262144 + (s1 - 0x80) * 4096 + (s2 - 0x80) * 64 + (s3 - 0x80), 4))"

text \<open>The rune at the head of a string and its width in bytes.\<close>

definition DecodeRuneInString :: "string \<Rightarrow> nat \<times> nat" where
  "DecodeRuneInString s =
     (case s of
        [] \<Rightarrow> (RuneError, 0)
      | c0 # rest \<Rightarrow>
          let s0 = of_char c0 in
          if s0 < 0x80 then (s0, 1)
          else if s0 < 0xC2 \<or> 0xF4 < s0 then (RuneError, 1)
          else if s0 < 0xE0 then
            (case rest of c1 # _ \<Rightarrow> decode2 s0 (of_char c1) | _ \<Rightarrow> (RuneError, 1))
          else if s0 < 0xF0 then
            (case rest of
               c1 # c2 # _ \<Rightarrow> decode3 s0 (of_char c1) (of_char c2)
             | _ \<Rightarrow> (RuneError, 1))
          else
            (case rest of
               c1 # c2 # c3 # _ \<Rightarrow> decode4 s0 (of_char c1) (of_char c2) (of_char c3)
             | _ \<Rightarrow> (RuneError, 1)))"

text \<open>The runes of a string, as a \<^verbatim>\<open>range\<close> loop or the matcher reads them.\<close>

fun runes :: "string \<Rightarrow> nat list" where
  "runes [] = []"
| "runes (c # cs) =
     (let (r, width) = DecodeRuneInString (c # cs) in r # runes (drop (width - 1) cs))"









section \<open>Regular expressions\<close>

text \<open>
  The syntax tree of a Go regular expression (the operators of \<^verbatim>\<open>regexp/syntax\<close> that
  the schema's patterns use). An expression matches runes: a literal is the list of its
  runes, a character class the predicate of its members.
\<close>

datatype regexp =
  Literal "nat list"
| CharClass "nat \<Rightarrow> bool"
| BeginText
| EndText
| Capture regexp
| Concat regexp regexp
| Alternate regexp regexp
| Plus regexp

text \<open>
  \<open>ends re t i\<close> lists the positions where a match of \<open>re\<close> that starts at position
  \<open>i\<close> of the text \<open>t\<close>, a list of runes, can end. \<open>^\<close> and \<open>$\<close> match at the beginning
  and at the end of the text only (no flag \<open>m\<close>). A repetition is unrolled as often as
  the text has runes left: a further round is tried only from a position beyond the
  current one.
\<close>

fun plus_ends :: "(nat \<Rightarrow> nat list) \<Rightarrow> nat \<Rightarrow> nat \<Rightarrow> nat list" where
  "plus_ends f 0 i = []"
| "plus_ends f (Suc n) i = f i @ concat (map (plus_ends f n) (filter (\<lambda>j. i < j) (f i)))"

primrec ends :: "regexp \<Rightarrow> nat list \<Rightarrow> nat \<Rightarrow> nat list" where
  "ends (Literal w) t i = (if take (length w) (drop i t) = w then [i + length w] else [])"
| "ends (CharClass p) t i = (if i < length t \<and> p (t ! i) then [Suc i] else [])"
| "ends BeginText t i = (if i = 0 then [i] else [])"
| "ends EndText t i = (if i = length t then [i] else [])"
| "ends (Capture r) t i = ends r t i"
| "ends (Concat r1 r2) t i = concat (map (ends r2 t) (ends r1 t i))"
| "ends (Alternate r1 r2) t i = ends r1 t i @ ends r2 t i"
| "ends (Plus r) t i = plus_ends (ends r t) (Suc (length t - i)) i"

text \<open>The expression matches somewhere in a text of runes.\<close>

definition Match :: "regexp \<Rightarrow> nat list \<Rightarrow> bool" where
  "Match re t = list_ex (\<lambda>i. ends re t i \<noteq> []) [0..<Suc (length t)]"

text \<open>\<^verbatim>\<open>Regexp.MatchString\<close>: the expression matches somewhere in the runes of the string.\<close>

definition MatchString :: "regexp \<Rightarrow> string \<Rightarrow> bool" where
  "MatchString re s = Match re (runes s)"

section \<open>The validators of the schema\<close>


definition InvalidAttributeValueMatchDiagnostic :: "path \<Rightarrow> string \<Rightarrow> string \<Rightarrow> diagnostic" where
  "InvalidAttributeValueMatchDiagnostic p description v =
     NewAttributeErrorDiagnostic p ''Invalid Attribute Value Match''
       (''Attribute '' @ path_string p @ '' '' @ description @ '', got: '' @ v)"

text \<open>
  A validator takes the path and the configured value and gives its diagnostics. The
  validators of \<^verbatim>\<open>stringvalidator\<close> and \<^verbatim>\<open>mapvalidator\<close> skip a null or unknown value.
  \<^verbatim>\<open>LengthBetween\<close> compares \<^verbatim>\<open>len(value)\<close>, the number of bytes.
\<close>

type_synonym string_validator = "path \<Rightarrow> tfstring \<Rightarrow> diagnostic list"


definition RegexMatches :: "regexp \<Rightarrow> string \<Rightarrow> string_validator" where
  "RegexMatches re message p v =
     (case v of
        Value s \<Rightarrow>
          if \<not> MatchString re s then [InvalidAttributeValueMatchDiagnostic p message s]
          else []
      | _ \<Rightarrow> [])"





text \<open>The framework runs every validator of an attribute and collects the diagnostics.\<close>

definition Validate :: "(path \<Rightarrow> 'a \<Rightarrow> diagnostic list) list \<Rightarrow> path \<Rightarrow> 'a \<Rightarrow> diagnostic list" where
  "Validate validators p v = concat (map (\<lambda>validator. validator p v) validators)"

subsection \<open>The patterns and validators of \<open>links\<close> and \<open>terms_name\<close>\<close>





text \<open>\<^verbatim>\<open>^(terms-of-use|privacy-policy)$\<close>\<close>

definition termsNameRegexp :: regexp where
  "termsNameRegexp =
     Concat BeginText
    (Concat (Capture (Alternate (Literal (runes ''terms-of-use''))
                                (Literal (runes ''privacy-policy''))))
     EndText)"

definition terms_name_Validators :: "string_validator list" where
  "terms_name_Validators =
     [RegexMatches termsNameRegexp
        ''must be exactly \"terms-of-use\" or \"privacy-policy\"'']"

section \<open>Auxiliary definitions for the proofs\<close>

text \<open>
  An expression built from literals, groups, concatenation and alternation only matches
  finitely many words (lists of runes), which \<open>words\<close> lists.
\<close>

fun literal_re :: "regexp \<Rightarrow> bool" where
  "literal_re (Literal w) = True"
| "literal_re (Capture r) = literal_re r"
| "literal_re (Concat r1 r2) = (literal_re r1 \<and> literal_re r2)"
| "literal_re (Alternate r1 r2) = (literal_re r1 \<and> literal_re r2)"
| "literal_re _ = False"

fun words :: "regexp \<Rightarrow> nat list list" where
  "words (Literal w) = [w]"
| "words (Capture r) = words r"
| "words (Concat r1 r2) = concat (map (\<lambda>u. map (\<lambda>v. u @ v) (words r2)) (words r1))"
| "words (Alternate r1 r2) = words r1 @ words r2"
| "words _ = []"


subsection \<open>Example values\<close>


definition example_model :: managedLoginTermsResourceModel where
  "example_model =
     \<lparr>Region = Null,
      ClientID = Value ''4example23k'',
      managedLoginTermsResourceModel.Enforcement = Value ''NONE'',
      managedLoginTermsResourceModel.Links =
        Value [(''cognito:default'', Value ''https://example.com/terms'')],
      ManagedLoginTermsID = Value ''18a6b81e-1b5b-4c9d-82c0-123456789012'',
      managedLoginTermsResourceModel.CreationDate = Null,
      managedLoginTermsResourceModel.LastModifiedDate = Null,
      managedLoginTermsResourceModel.TermsName = Value ''terms-of-use'',
      managedLoginTermsResourceModel.TermsSource = Value ''LINK'',
      UserPoolID = Value ''us-west-2_rSss9Zltr''\<rparr>"

definition example_terms :: TermsType where
  "example_terms =
     \<lparr>TermsType.ClientId = Some ''4example23k'',
      TermsType.CreationDate = Some ''2025-01-01T00:00:00Z'',
      TermsType.Enforcement = ''NONE'',
      TermsType.LastModifiedDate = Some ''2025-01-01T00:00:00Z'',
      TermsType.Links = [(''cognito:default'', ''https://example.com/terms'')],
      TermsType.TermsId = Some ''18a6b81e-1b5b-4c9d-82c0-123456789012'',
      TermsType.TermsName = Some ''terms-of-use'',
      TermsType.TermsSource = ''LINK'',
      TermsType.UserPoolId = Some ''us-west-2_rSss9Zltr''\<rparr>"

definition example_flex :: Flex where
  "example_flex =
     \<lparr>ExpandCreateTerms = (\<lambda>m.
        ([], \<lparr>CreateTermsInput.ClientId = Some (ValueString (ClientID m)),
              CreateTermsInput.Enforcement =
                ValueString (managedLoginTermsResourceModel.Enforcement m),
              CreateTermsInput.Links = [],
              CreateTermsInput.TermsName =
                Some (ValueString (managedLoginTermsResourceModel.TermsName m)),
              CreateTermsInput.TermsSource =
                ValueString (managedLoginTermsResourceModel.TermsSource m),
              CreateTermsInput.UserPoolId = Some (ValueString (UserPoolID m))\<rparr>)),
      ExpandUpdateTerms = (\<lambda>m.
        ([], \<lparr>UpdateTermsInput.Enforcement =
                ValueString (managedLoginTermsResourceModel.Enforcement m),
              UpdateTermsInput.Links = [],
              UpdateTermsInput.TermsId = None,
              UpdateTermsInput.TermsName =
                Some (ValueString (managedLoginTermsResourceModel.TermsName m)),
              UpdateTermsInput.TermsSource =
                ValueString (managedLoginTermsResourceModel.TermsSource m),
              UpdateTermsInput.UserPoolId = Some (ValueString (UserPoolID m))\<rparr>)),
      Flatten = (\<lambda>t m.
        ([], m\<lparr>managedLoginTermsResourceModel.CreationDate :=
                  StringToFramework (TermsType.CreationDate t),
                managedLoginTermsResourceModel.LastModifiedDate :=
                  StringToFramework (TermsType.LastModifiedDate t)\<rparr>))\<rparr>"

text \<open>A client whose object exists, and one whose object is missing.\<close>

definition example_conn :: Client where
  "example_conn =
     \<lparr>CreateTerms = (\<lambda>i. (Some \<lparr>CreateTermsOutput.Terms = Some example_terms\<rparr>, None)),
      DescribeTerms = (\<lambda>i. (Some \<lparr>DescribeTermsOutput.Terms = Some example_terms\<rparr>, None)),
      UpdateTerms = (\<lambda>i. (Some \<lparr>UpdateTermsOutput.Terms = Some example_terms\<rparr>, None)),
      DeleteTerms = (\<lambda>i. (Some (), None))\<rparr>"

definition example_conn_missing :: Client where
  "example_conn_missing =
     \<lparr>CreateTerms = (\<lambda>i. (None, Some (ResourceNotFoundException ''Terms not found''))),
      DescribeTerms = (\<lambda>i. (None, Some (ResourceNotFoundException ''Terms not found''))),
      UpdateTerms = (\<lambda>i. (None, Some (ResourceNotFoundException ''Terms not found''))),
      DeleteTerms = (\<lambda>i. (None, Some (ResourceNotFoundException ''Terms not found'')))\<rparr>"

definition example_response :: CrudResponse where
  "example_response = \<lparr>Diagnostics = [], State = Some example_model\<rparr>"

section \<open>Lemmas about diagnostics and responses\<close>

lemma HasError_append: "HasError (a @ b) = (HasError a \<or> HasError b)"
  by (simp add: HasError_def)

lemma HasError_Nil: "\<not> HasError []"
  by (simp add: HasError_def)

lemma Diagnostics_Append: "Diagnostics (Append r ds) = Diagnostics r @ ds"
  by (simp add: Append_def)

lemma State_Append: "State (Append r ds) = State r"
  by (simp add: Append_def)

lemma HasError_AddError: "HasError (Diagnostics (AddError r s d))"
  by (simp add: AddError_def Append_def HasError_def NewErrorDiagnostic_def)

lemma State_AddError: "State (AddError r s d) = State r"
  by (simp add: AddError_def Append_def)

lemma Diagnostics_State_Set: "Diagnostics (State_Set r d) = Diagnostics r"
  by (simp add: State_Set_def Append_def)

lemma State_State_Set: "State (State_Set r d) = Some d"
  by (simp add: State_Set_def Append_def)

lemma dom_ElementsAs:
  assumes "ElementsAs elements True = (ds, links)"
  shows "ds = [] \<and> dom links = fst ` set elements"
proof -
  have "map fst (map (\<lambda>(k, v). (k, ValueString v)) elements) = map fst elements"
    by (simp add: case_prod_beta comp_def)
  then have "fst ` set (map (\<lambda>(k, v). (k, ValueString v)) elements) = fst ` set elements"
    by (metis set_map)
  then have "dom (map_of (map (\<lambda>(k, v). (k, ValueString v)) elements)) = fst ` set elements"
    by (simp only: dom_map_of_conv_image_fst)
  moreover have "ds = []" and "links = map_of (map (\<lambda>(k, v). (k, ValueString v)) elements)"
    using assms by (simp_all add: ElementsAs_def)
  ultimately show ?thesis by simp
qed

lemma IsA_NotFound_NotFoundError: "NotFound (Some (NotFoundError e r))"
  by (simp add: NotFound_def)

lemma Diagnostics_AddError:
  "Diagnostics (AddError r s d) = Diagnostics r @ [NewErrorDiagnostic s d]"
  by (simp add: AddError_def Append_def)

lemma HasError_NewErrorDiagnostic: "HasError [NewErrorDiagnostic s d]"
  by (simp add: HasError_def NewErrorDiagnostic_def)

text \<open>Neither \<open>Read\<close> nor \<open>ImportState\<close> panics.\<close>

lemma Read_returns: "\<exists>r. Read fx conn state response = Some r"
  by (auto simp add: Read_def findManagedLoginTermsByTwoPartKey_def Let_def
      split: prod.splits option.splits if_splits)

lemma ImportState_returns: "\<exists>r. ImportState rid response = Some r"
  by (auto simp add: ImportState_def ExpandResourceId_def Let_def 
      split: sum.splits list.splits if_splits)

section \<open>What the patterns match\<close>

lemma take_append_eq:
  "(take (length (u @ v)) t = u @ v) =
     (take (length u) t = u \<and> take (length v) (drop (length u) t) = v)"
proof
  assume h: "take (length (u @ v)) t = u @ v"
  then have "length (take (length (u @ v)) t) = length u + length v" by simp
  then have len: "length u + length v \<le> length t" by simp
  have "take (length u) t @ take (length v) (drop (length u) t) = u @ v"
    using h by (simp add: take_add)
  moreover have "length (take (length u) t) = length u" using len by simp
  ultimately show "take (length u) t = u \<and> take (length v) (drop (length u) t) = v"
    by (metis append_eq_append_conv)
next
  assume "take (length u) t = u \<and> take (length v) (drop (length u) t) = v"
  then show "take (length (u @ v)) t = u @ v"
    by (simp add: take_add)
qed

lemma ends_literal_re:
  "literal_re r \<Longrightarrow>
   set (ends r s i) = {i + length w | w. w \<in> set (words r) \<and> take (length w) (drop i s) = w}"
proof (induction r arbitrary: i)
  case (Literal w)
  show ?case by auto
next
  case (Capture r)
  then show ?case by simp
next
  case (Alternate r1 r2)
  then have a: "set (ends r1 s i) = {i + length w | w. w \<in> set (words r1) \<and> take (length w) (drop i s) = w}"
    and b: "set (ends r2 s i) = {i + length w | w. w \<in> set (words r2) \<and> take (length w) (drop i s) = w}"
    by simp_all
  show ?case by (simp add: a b) blast
next
  case (Concat r1 r2)
  then have a: "\<And>i. set (ends r1 s i) = {i + length w | w. w \<in> set (words r1) \<and> take (length w) (drop i s) = w}"
    and b: "\<And>i. set (ends r2 s i) = {i + length w | w. w \<in> set (words r2) \<and> take (length w) (drop i s) = w}"
    by simp_all
  have "set (ends (Concat r1 r2) s i) = (\<Union>j \<in> set (ends r1 s i). set (ends r2 s j))"
    by simp
  also have "\<dots> = {(i + length u) + length v | u v. u \<in> set (words r1) \<and> take (length u) (drop i s) = u
                      \<and> v \<in> set (words r2) \<and> take (length v) (drop (i + length u) s) = v}"
    by (simp only: a b) blast
  also have "\<dots> = {i + length w | w. w \<in> set (words (Concat r1 r2)) \<and> take (length w) (drop i s) = w}"
    (is "?A = ?B")
  proof
    show "?A \<subseteq> ?B"
    proof
      fix j assume "j \<in> ?A"
      then obtain u v where uv: "j = (i + length u) + length v" "u \<in> set (words r1)"
        "take (length u) (drop i s) = u" "v \<in> set (words r2)"
        "take (length v) (drop (i + length u) s) = v" by blast
      have "take (length (u @ v)) (drop i s) = u @ v"
        using uv(3,5) by (simp only: take_append_eq drop_drop add.commute) 
      moreover have "u @ v \<in> set (words (Concat r1 r2))" using uv(2,4) by auto
      moreover have "j = i + length (u @ v)" using uv(1) by simp
      ultimately show "j \<in> ?B" by blast
    qed
    show "?B \<subseteq> ?A"
    proof
      fix j assume "j \<in> ?B"
      then obtain w where w: "j = i + length w" "w \<in> set (words (Concat r1 r2))"
        "take (length w) (drop i s) = w" by blast
      from w(2) obtain u v where uv: "w = u @ v" "u \<in> set (words r1)" "v \<in> set (words r2)"
        by auto
      have "take (length u) (drop i s) = u \<and> take (length v) (drop (length u) (drop i s)) = v"
        using w(3) unfolding uv(1) by (simp only: take_append_eq)
      then have "take (length u) (drop i s) = u" "take (length v) (drop (i + length u) s) = v"
        by (simp_all add: add.commute)
      moreover have "j = (i + length u) + length v" using w(1) uv(1) by simp
      ultimately show "j \<in> ?A" using uv(2,3) by blast
    qed
  qed
  finally show ?case .
qed simp_all

lemma Match_anchored:
  "Match (Concat BeginText (Concat r EndText)) t = (length t \<in> set (ends r t 0))"
  by (auto simp add: Match_def list_ex_iff)


lemma full_literal_re:
  assumes "literal_re r"
  shows "(length t \<in> set (ends r t 0)) = (t \<in> set (words r))"
  using ends_literal_re [OF assms, of t 0] by auto

lemma Match_literal_re:
  assumes "literal_re r"
  shows "Match (Concat BeginText (Concat r EndText)) t = (t \<in> set (words r))"
  using assms by (simp only: Match_anchored full_literal_re)




subsection \<open>Runes of ASCII strings\<close>

lemma decode2_ge: "0xC2 \<le> s0 \<Longrightarrow> 0x80 \<le> fst (decode2 s0 s1)"
  by (auto simp add: decode2_def RuneError_def)

lemma decode3_ge: "0xE0 \<le> s0 \<Longrightarrow> 0x80 \<le> fst (decode3 s0 s1 s2)"
  by (cases "s0 = 0xE0") (auto simp add: decode3_def RuneError_def)

lemma decode4_ge: "0xF0 \<le> s0 \<Longrightarrow> 0x80 \<le> fst (decode4 s0 s1 s2 s3)"
  by (cases "s0 = 0xF0") (auto simp add: decode4_def RuneError_def)

lemma Decode_ascii:
  "of_char c < (0x80::nat) \<Longrightarrow> DecodeRuneInString (c # cs) = (of_char c, 1)"
  by (simp add: DecodeRuneInString_def)

lemma Decode_not_ascii:
  assumes "\<not> of_char c < (0x80::nat)"
  shows "0x80 \<le> fst (DecodeRuneInString (c # cs))"
  using assms
  by (simp add: DecodeRuneInString_def Let_def RuneError_def decode2_ge decode3_ge decode4_ge
      split: list.splits)

lemma runes_Cons_ascii: "of_char c < (0x80::nat) \<Longrightarrow> runes (c # cs) = of_char c # runes cs"
  by (simp add: Decode_ascii)

lemma runes_ascii: "list_all (\<lambda>c. of_char c < (0x80::nat)) w \<Longrightarrow> runes w = map of_char w"
  by (induction w) (simp_all add: Decode_ascii)

lemma runes_eq_ascii:
  assumes "list_all (\<lambda>c. of_char c < (0x80::nat)) w"
  shows "(runes s = runes w) = (s = w)"
proof
  assume "s = w"
  then show "runes s = runes w" by simp
next
  assume "runes s = runes w"
  then have "runes s = map of_char w" using assms by (simp add: runes_ascii)
  then show "s = w" using assms
  proof (induction s arbitrary: w)
    case Nil
    then show ?case by simp
  next
    case (Cons c cs)
    obtain r width where d: "DecodeRuneInString (c # cs) = (r, width)"
      by (cases "DecodeRuneInString (c # cs)")
    from Cons.prems(1) d obtain x w' where w: "w = x # w'" "r = of_char x"
      "runes (drop (width - 1) cs) = map of_char w'"
      by (cases w) auto
    from Cons.prems(2) w have x: "of_char x < (0x80::nat)"
      and w': "list_all (\<lambda>c. of_char c < (0x80::nat)) w'"
      by simp_all
    have a: "of_char c < (0x80::nat)"
    proof (rule ccontr)
      assume "\<not> of_char c < (0x80::nat)"
      from Decode_not_ascii [OF this, of cs] d w(2) x show False by simp
    qed
    from Decode_ascii [OF a, of cs] d have "r = of_char c" "width = 1" by simp_all
    with w have "c = x" "runes cs = map of_char w'" by simp_all
    with Cons.IH [OF _ w'] w(1) show ?case by simp
  qed
qed

lemma runes_mem_ascii:
  assumes "list_all (list_all (\<lambda>c. of_char c < (0x80::nat))) ws"
  shows "(runes s \<in> set (map runes ws)) = (s \<in> set ws)"
  using assms by (induction ws) (simp_all add: runes_eq_ascii)


subsection \<open>The three patterns\<close>

lemma termsName_match:
  "MatchString termsNameRegexp s = (s = ''terms-of-use'' \<or> s = ''privacy-policy'')"
proof -
  have "MatchString termsNameRegexp s
          = (runes s \<in> set (map runes [''terms-of-use'', ''privacy-policy'']))"
    unfolding termsNameRegexp_def MatchString_def
    by (subst Match_literal_re) simp_all
  also have "\<dots> = (s \<in> set [''terms-of-use'', ''privacy-policy''])"
    by (rule runes_mem_ascii) simp
  finally show ?thesis by simp
qed




section \<open>What the validators accept\<close>

lemma RegexMatches_Nil: "(RegexMatches re m p (Value s) = []) = MatchString re s"
  by (simp add: RegexMatches_def)











section \<open>Splitting an import ID\<close>

lemma Split_not_Nil: "Split s c \<noteq> []"
  by (induction s) (auto split: list.splits)

lemma length_Split: "length (Split s c) = Suc (count_list s c)"
  by (induction s) (auto simp add: Split_not_Nil split: list.splits)

lemma Split_no_separator: "c \<notin> set s \<Longrightarrow> Split s c = [s]"
  by (induction s) auto

lemma Split_append: "c \<notin> set a \<Longrightarrow> Split (a @ c # b) c = a # Split b c"
  by (induction a) auto

lemma count_list_one:
  "count_list s c = 1 \<Longrightarrow> \<exists>a b. s = a @ c # b \<and> c \<notin> set a \<and> c \<notin> set b"
proof (induction s)
  case Nil
  then show ?case by simp
next
  case (Cons x xs)
  show ?case
  proof (cases "x = c")
    case True
    with Cons.prems have "count_list xs c = 0" by simp
    then have "c \<notin> set xs" by (simp add: count_list_0_iff)
    with True have "x # xs = [] @ c # xs \<and> c \<notin> set [] \<and> c \<notin> set xs" by simp
    then show ?thesis by blast
  next
    case False
    with Cons.prems have "count_list xs c = 1" by simp
    with Cons.IH obtain a b where "xs = a @ c # b" "c \<notin> set a" "c \<notin> set b" by blast
    with False have "x # xs = (x # a) @ c # b \<and> c \<notin> set (x # a) \<and> c \<notin> set b" by auto
    then show ?thesis by blast
  qed
qed

lemma ExpandResourceId_two_parts:
  assumes "CHR '','' \<notin> set a" and "CHR '','' \<notin> set b"
  shows "ExpandResourceId (a @ '','' @ b) 2 True = Inr [a, b]"
proof -
  have "Split (a @ CHR '','' # b) (CHR '','') = [a, b]"
    using assms by (simp add: Split_append Split_no_separator)
  then show ?thesis
    by (simp add: ExpandResourceId_def ResourceIdSeparator_def)
qed

lemma ExpandResourceId_not_two_parts:
  assumes "count_list rid (CHR '','') \<noteq> 1"
  shows "\<exists>err. ExpandResourceId rid 2 True = Inl err"
proof -
  have "length (Split rid (CHR '','')) \<noteq> 2"
    using assms by (simp add: length_Split)
  then show ?thesis
    by (simp add: ExpandResourceId_def ResourceIdSeparator_def Let_def)
qed

section \<open>The claims\<close>

text \<open>
  C1. When the decoding of the configuration reports no error and the links map is
  present (known), the cross-field validator adds exactly one invalid-attribute
  diagnostic for \<open>links\<close> if the map has no key \<open>cognito:default\<close>, and adds nothing if
  it has the key.
\<close>

theorem ValidateResource_links_present:
  assumes "\<not> HasError (diags @ fst cfg)"
    and "managedLoginTermsResourceModel.Links (snd cfg) = Value elements"
  shows "ValidateResource cfg diags =
           diags @ fst cfg @
             (if ''cognito:default'' \<in> fst ` set elements then []
              else [InvalidAttributeValueDiagnostic (Root ''links'')
                      ''links must include a cognito:default entry'' ''missing cognito:default''])"
proof (cases cfg)
  case (Pair configDiags config)
  obtain ds links where e: "ElementsAs elements True = (ds, links)"
    by (cases "ElementsAs elements True")
  from dom_ElementsAs [OF e] have ds: "ds = []" and d: "dom links = fst ` set elements"
    by simp_all
  have "(links ''cognito:default'' = None) = (''cognito:default'' \<notin> fst ` set elements)"
    using d by (metis domIff)
  then show ?thesis
    using assms e ds Pair
    by (simp add: ValidateResource_def Let_def MarkdownDescription_def)
qed

theorem ValidateResource_links_present_witness:
  "ValidateResource ([], example_model) [] = []
   \<and> ValidateResource
         ([], example_model\<lparr>managedLoginTermsResourceModel.Links :=
                Value [(''cognito:english'', Value ''https://example.com/en'')]\<rparr>) [] =
       [InvalidAttributeValueDiagnostic (Root ''links'')
          ''links must include a cognito:default entry'' ''missing cognito:default'']"
  using ValidateResource_links_present
          [of "[]" "([], example_model)"
              "[(''cognito:default'', Value ''https://example.com/terms'')]"]
        ValidateResource_links_present
          [of "[]" "([], example_model\<lparr>managedLoginTermsResourceModel.Links :=
                      Value [(''cognito:english'', Value ''https://example.com/en'')]\<rparr>)"
              "[(''cognito:english'', Value ''https://example.com/en'')]"]
  by (simp add: example_model_def HasError_Nil)




text \<open>
  C3. A missing backing object is treated as already gone. When reading the state
  reports no error and the lookup returns a not-found error, \<open>Read\<close> removes the resource
  from the state and adds one diagnostic, a warning, so that no error is reported; this
  is the case when \<open>DescribeTerms\<close> fails with a \<open>ResourceNotFoundException\<close>. When
  \<open>DeleteTerms\<close> fails with a \<open>ResourceNotFoundException\<close>, \<open>Delete\<close> returns with no
  diagnostic of its own and no error.
\<close>

theorem Read_Delete_missing_object:
  fixes fx conn state response
  defines "userPoolID \<equiv> StringValueFromFramework (UserPoolID (snd state))"
    and "termsID \<equiv> StringValueFromFramework (ManagedLoginTermsID (snd state))"
  defines "diags \<equiv> Diagnostics response @ fst state"
  shows "(\<forall>terms e calls.
            \<not> HasError diags
            \<and> findManagedLoginTermsByTwoPartKey conn userPoolID termsID = ((terms, Some e), calls)
            \<and> NotFound (Some e)
          \<longrightarrow> Read fx conn state response =
                Some (\<lparr>Diagnostics = diags @ [NewResourceNotFoundWarningDiagnostic e],
                       State = None\<rparr>, calls)
              \<and> Severity (NewResourceNotFoundWarningDiagnostic e) = SeverityWarning
              \<and> \<not> HasError (diags @ [NewResourceNotFoundWarningDiagnostic e]))
       \<and> (\<forall>out e.
            \<not> HasError diags
            \<and> DescribeTerms conn \<lparr>DescribeTermsInput.TermsId = Some termsID,
                                   DescribeTermsInput.UserPoolId = Some userPoolID\<rparr> = (out, Some e)
            \<and> IsA_ResourceNotFoundException (Some e)
          \<longrightarrow> (\<exists>w calls. Read fx conn state response =
                  Some (\<lparr>Diagnostics = diags @ [w], State = None\<rparr>, calls)
                \<and> Severity w = SeverityWarning))
       \<and> (\<forall>out e.
            \<not> HasError diags
            \<and> DeleteTerms conn \<lparr>DeleteTermsInput.TermsId = Some termsID,
                                 DeleteTermsInput.UserPoolId = Some userPoolID\<rparr> = (out, Some e)
            \<and> IsA_ResourceNotFoundException (Some e)
          \<longrightarrow> fst (Delete conn state response) = response\<lparr>Diagnostics := diags\<rparr>
              \<and> \<not> HasError (Diagnostics (fst (Delete conn state response))))"
proof (cases state)
  case (Pair stateDiags data)
  have w: "Severity (NewResourceNotFoundWarningDiagnostic e) = SeverityWarning" for e
    by (simp add: NewResourceNotFoundWarningDiagnostic_def NewWarningDiagnostic_def)
  have r: "Read fx conn state response =
             Some (\<lparr>Diagnostics = diags @ [NewResourceNotFoundWarningDiagnostic e], State = None\<rparr>, calls)"
    if "\<not> HasError diags"
      and "findManagedLoginTermsByTwoPartKey conn userPoolID termsID = ((terms, Some e), calls)"
      and "NotFound (Some e)" for terms e calls
    using that Pair
    by (simp add: Read_def Let_def diags_def userPoolID_def termsID_def Diagnostics_Append
          State_RemoveResource_def Append_def)
  have f: "\<exists>calls. findManagedLoginTermsByTwoPartKey conn userPoolID termsID =
             ((None, Some (NotFoundError e (DescribeTermsRequest
                 \<lparr>DescribeTermsInput.TermsId = Some termsID,
                  DescribeTermsInput.UserPoolId = Some userPoolID\<rparr>))), calls)"
    if "DescribeTerms conn \<lparr>DescribeTermsInput.TermsId = Some termsID,
                            DescribeTermsInput.UserPoolId = Some userPoolID\<rparr> = (out, Some e)"
      and "IsA_ResourceNotFoundException (Some e)" for out e
    using that by (simp add: findManagedLoginTermsByTwoPartKey_def Let_def)
  have d: "fst (Delete conn state response) = response\<lparr>Diagnostics := diags\<rparr>
            \<and> \<not> HasError (Diagnostics (fst (Delete conn state response)))"
    if "\<not> HasError diags"
      and "DeleteTerms conn \<lparr>DeleteTermsInput.TermsId = Some termsID,
                             DeleteTermsInput.UserPoolId = Some userPoolID\<rparr> = (out, Some e)"
      and "IsA_ResourceNotFoundException (Some e)" for out e
    using that Pair
    by (simp add: Delete_def Let_def diags_def userPoolID_def termsID_def Diagnostics_Append
          Append_def)
  show ?thesis
  proof (intro conjI allI impI)
    fix terms e calls
    assume a: "\<not> HasError diags \<and>
       findManagedLoginTermsByTwoPartKey conn userPoolID termsID = ((terms, Some e), calls) \<and>
       NotFound (Some e)"
    then show "Read fx conn state response =
       Some (\<lparr>Diagnostics = diags @ [NewResourceNotFoundWarningDiagnostic e], State = None\<rparr>, calls)"
      using r by blast
    show "Severity (NewResourceNotFoundWarningDiagnostic e) = SeverityWarning" by (rule w)
    show "\<not> HasError (diags @ [NewResourceNotFoundWarningDiagnostic e])"
      using a w [of e] by (simp add: HasError_append) (simp add: HasError_def)
  next
    fix out e
    assume a: "\<not> HasError diags \<and>
       DescribeTerms conn \<lparr>DescribeTermsInput.TermsId = Some termsID,
                           DescribeTermsInput.UserPoolId = Some userPoolID\<rparr> = (out, Some e) \<and>
       IsA_ResourceNotFoundException (Some e)"
    then obtain calls where "findManagedLoginTermsByTwoPartKey conn userPoolID termsID =
             ((None, Some (NotFoundError e (DescribeTermsRequest
                 \<lparr>DescribeTermsInput.TermsId = Some termsID,
                  DescribeTermsInput.UserPoolId = Some userPoolID\<rparr>))), calls)"
      using f by blast
    then show "\<exists>w calls. Read fx conn state response =
                  Some (\<lparr>Diagnostics = diags @ [w], State = None\<rparr>, calls)
                \<and> Severity w = SeverityWarning"
      using r a IsA_NotFound_NotFoundError w by blast
  next
    fix out e
    assume a: "\<not> HasError diags \<and>
       DeleteTerms conn \<lparr>DeleteTermsInput.TermsId = Some termsID,
                         DeleteTermsInput.UserPoolId = Some userPoolID\<rparr> = (out, Some e) \<and>
       IsA_ResourceNotFoundException (Some e)"
    then show "fst (Delete conn state response) = response\<lparr>Diagnostics := diags\<rparr>"
      and "\<not> HasError (Diagnostics (fst (Delete conn state response)))"
      using d by blast+
  qed
qed

theorem Read_Delete_missing_object_witness:
  "(\<exists>w calls. Read example_flex example_conn_missing ([], example_model) example_response =
       Some (\<lparr>Diagnostics = [w], State = None\<rparr>, calls) \<and> Severity w = SeverityWarning)
   \<and> fst (Delete example_conn_missing ([], example_model) example_response) =
       example_response
   \<and> \<not> HasError (Diagnostics (fst (Delete example_conn_missing ([], example_model)
                                     example_response)))"
  using Read_Delete_missing_object
          [where fx = example_flex and conn = example_conn_missing
             and state = "([], example_model)" and response = example_response]
  by (simp add: example_conn_missing_def example_response_def HasError_def
        IsA_ResourceNotFoundException_def)

text \<open>
  C4. Every \<open>UpdateTerms\<close> call that \<open>Update\<close> makes carries as \<open>TermsId\<close> the
  \<open>managed_login_terms_id\<close> of the prior state, whatever the plan holds. When that ID is
  null or unknown, \<open>Update\<close> reports an error and makes no call. When nothing fails before
  and the ID is known, \<open>Update\<close> makes exactly one call, with the expanded plan and that
  ID.
\<close>

theorem Update_TermsId_from_state:
  fixes fx conn planData stateData response
  defines "sid \<equiv> ManagedLoginTermsID (snd stateData)"
    and "U \<equiv> Update fx conn planData stateData response"
  shows "(\<forall>c \<in> set (snd U).
            \<exists>input. c = UpdateTermsCall input
              \<and> UpdateTermsInput.TermsId input = Some (ValueString sid)
              \<and> \<not> IsNull sid \<and> \<not> IsUnknown sid)
       \<and> (IsNull sid \<or> IsUnknown sid \<longrightarrow> HasError (Diagnostics (fst U)) \<and> snd U = [])
       \<and> (\<not> HasError (Diagnostics response @ fst planData @ fst stateData
                          @ fst (ExpandUpdateTerms fx (snd planData)))
            \<and> \<not> IsNull sid \<and> \<not> IsUnknown sid
          \<longrightarrow> snd U = [UpdateTermsCall
                          ((snd (ExpandUpdateTerms fx (snd planData)))
                             \<lparr>UpdateTermsInput.TermsId := Some (ValueString sid)\<rparr>)])"
  unfolding sid_def U_def
  by (cases "ManagedLoginTermsID (snd stateData)")
     (auto simp add: Update_def Let_def Diagnostics_Append State_Append HasError_append
        HasError_AddError State_AddError Diagnostics_State_Set State_State_Set
      split: prod.splits option.splits if_splits)

theorem Update_TermsId_from_state_witness:
  "snd (Update example_flex example_conn
          ([], example_model\<lparr>ManagedLoginTermsID := Unknown\<rparr>) ([], example_model)
          example_response) =
     [UpdateTermsCall
        ((snd (ExpandUpdateTerms example_flex
                 (example_model\<lparr>ManagedLoginTermsID := Unknown\<rparr>)))
           \<lparr>UpdateTermsInput.TermsId := Some ''18a6b81e-1b5b-4c9d-82c0-123456789012''\<rparr>)]
   \<and> HasError (Diagnostics (fst (Update example_flex example_conn ([], example_model)
                                   ([], example_model\<lparr>ManagedLoginTermsID := Unknown\<rparr>)
                                   example_response)))
   \<and> snd (Update example_flex example_conn ([], example_model)
            ([], example_model\<lparr>ManagedLoginTermsID := Unknown\<rparr>) example_response) = []"
  using Update_TermsId_from_state
          [of example_flex example_conn "([], example_model\<lparr>ManagedLoginTermsID := Unknown\<rparr>)"
              "([], example_model)" example_response]
        Update_TermsId_from_state
          [of example_flex example_conn "([], example_model)"
              "([], example_model\<lparr>ManagedLoginTermsID := Unknown\<rparr>)" example_response]
  by (simp add: example_model_def example_flex_def example_response_def HasError_Nil)

text \<open>
  C5 (amended). \<open>ImportState\<close> splits the ID at the commas. An ID with exactly one
  comma, that is two parts, either of which may be blank, sets \<open>user_pool_id\<close> to the
  first part and \<open>managed_login_terms_id\<close> to the second; any other ID adds a
  parsing-error diagnostic and sets no attribute.
\<close>

theorem ImportState_two_parts:
  "(\<forall>a b. CHR '','' \<notin> set a \<and> CHR '','' \<notin> set b
      \<longrightarrow> ImportState (a @ '','' @ b) response =
            Some (response\<lparr>State := (State response)
                    (Root ''user_pool_id'' \<mapsto> a, Root ''managed_login_terms_id'' \<mapsto> b)\<rparr>))
   \<and> (count_list rid (CHR '','') \<noteq> 1
      \<longrightarrow> (\<exists>err. ImportState rid response =
            Some (response\<lparr>Diagnostics :=
                    Diagnostics response @ [NewParsingResourceIDErrorDiagnostic err]\<rparr>)))
   \<and> (count_list rid (CHR '','') = 1
      \<longrightarrow> (\<exists>a b. rid = a @ '','' @ b \<and> CHR '','' \<notin> set a \<and> CHR '','' \<notin> set b))"
proof (intro conjI allI impI)
  fix a b :: string
  assume "CHR '','' \<notin> set a \<and> CHR '','' \<notin> set b"
  then have "ExpandResourceId (a @ '','' @ b) 2 True = Inr [a, b]"
    using ExpandResourceId_two_parts by blast
  then show "ImportState (a @ '','' @ b) response =
            Some (response\<lparr>State := (State response)
                    (Root ''user_pool_id'' \<mapsto> a, Root ''managed_login_terms_id'' \<mapsto> b)\<rparr>)"
    by (simp add: ImportState_def State_SetAttribute_def Append_def AttrUserPoolID_def)
next
  assume "count_list rid (CHR '','') \<noteq> 1"
  then obtain err where "ExpandResourceId rid 2 True = Inl err"
    using ExpandResourceId_not_two_parts by blast
  then have "ImportState rid response =
            Some (response\<lparr>Diagnostics :=
                    Diagnostics response @ [NewParsingResourceIDErrorDiagnostic err]\<rparr>)"
    by (simp add: ImportState_def Append_def)
  then show "\<exists>err. ImportState rid response =
            Some (response\<lparr>Diagnostics :=
                    Diagnostics response @ [NewParsingResourceIDErrorDiagnostic err]\<rparr>)"
    by blast
next
  assume "count_list rid (CHR '','') = 1"
  then show "\<exists>a b. rid = a @ '','' @ b \<and> CHR '','' \<notin> set a \<and> CHR '','' \<notin> set b"
    using count_list_one [of rid "CHR '',''"] by simp
qed

theorem ImportState_two_parts_witness:
  "ImportState ''us-west-2_rSss9Zltr,18a6b81e-1b5b-4c9d-82c0-123456789012''
       \<lparr>Diagnostics = [], State = Map.empty\<rparr> =
     Some \<lparr>Diagnostics = [],
           State = [Root ''user_pool_id'' \<mapsto> ''us-west-2_rSss9Zltr'',
                    Root ''managed_login_terms_id'' \<mapsto> ''18a6b81e-1b5b-4c9d-82c0-123456789012'']\<rparr>
   \<and> (\<exists>err. ImportState ''us-west-2_rSss9Zltr'' \<lparr>Diagnostics = [], State = Map.empty\<rparr> =
         Some \<lparr>Diagnostics = [NewParsingResourceIDErrorDiagnostic err], State = Map.empty\<rparr>)"
  using ImportState_two_parts
          [of "\<lparr>Diagnostics = [], State = Map.empty\<rparr>" "''us-west-2_rSss9Zltr''",
           THEN conjunct1, THEN spec, THEN spec,
           of "''us-west-2_rSss9Zltr''" "''18a6b81e-1b5b-4c9d-82c0-123456789012''"]
        ImportState_two_parts
          [of "\<lparr>Diagnostics = [], State = Map.empty\<rparr>" "''us-west-2_rSss9Zltr''",
           THEN conjunct2, THEN conjunct1]
  by simp

text \<open>
  The claim as stated asks for two non-empty parts. An ID with a blank part is imported:
  no diagnostic, and the blank part is set.
\<close>

theorem ImportState_blank_part_counterexample:
  "ImportState ''us-west-2_rSss9Zltr,'' \<lparr>Diagnostics = [], State = Map.empty\<rparr> =
     Some \<lparr>Diagnostics = [],
           State = [Root ''user_pool_id'' \<mapsto> ''us-west-2_rSss9Zltr'',
                    Root ''managed_login_terms_id'' \<mapsto> '''']\<rparr>"
  by (simp add: ImportState_def ExpandResourceId_def ResourceIdSeparator_def
        State_SetAttribute_def Append_def AttrUserPoolID_def)

text \<open>
  C6. When \<open>Create\<close> ends with no error diagnostic, \<open>CreateTerms\<close> has returned terms
  and the state written has as \<open>managed_login_terms_id\<close> the \<open>TermsId\<close> of these terms.
  When \<open>CreateTerms\<close> returns an error, a nil output or an output with nil \<open>Terms\<close>,
  \<open>Create\<close> reports an error and leaves the state as it was; if nothing failed before
  the call, the error is the one diagnostic added after it.
\<close>

theorem Create_writes_returned_TermsId:
  fixes fx conn plan response
  defines "C \<equiv> Create fx conn plan response"
    and "input \<equiv> snd (ExpandCreateTerms fx (snd plan))"
  shows "(\<not> HasError (Diagnostics (fst C))
          \<longrightarrow> (\<exists>out terms data.
                 snd C = [CreateTermsCall input]
                 \<and> CreateTerms conn input = (Some out, None)
                 \<and> CreateTermsOutput.Terms out = Some terms
                 \<and> State (fst C) = Some data
                 \<and> ManagedLoginTermsID data = StringToFramework (TermsType.TermsId terms)))
       \<and> (snd (CreateTerms conn input) \<noteq> None
            \<or> fst (CreateTerms conn input) = None
            \<or> (\<exists>out. fst (CreateTerms conn input) = Some out \<and> CreateTermsOutput.Terms out = None)
          \<longrightarrow> HasError (Diagnostics (fst C)) \<and> State (fst C) = State response
              \<and> (\<not> HasError (Diagnostics response @ fst plan
                                 @ fst (ExpandCreateTerms fx (snd plan)))
                   \<longrightarrow> snd C = [CreateTermsCall input]
                       \<and> (\<exists>summary detail.
                             Diagnostics (fst C) =
                               Diagnostics response @ fst plan
                                 @ fst (ExpandCreateTerms fx (snd plan))
                                 @ [NewErrorDiagnostic summary detail])))"
  unfolding C_def input_def
  by (auto simp add: Create_def Let_def Diagnostics_Append State_Append HasError_append
        HasError_AddError State_AddError Diagnostics_State_Set State_State_Set
        Diagnostics_AddError HasError_NewErrorDiagnostic
      split: prod.splits option.splits if_splits)

theorem Create_writes_returned_TermsId_witness:
  "(\<exists>data. State (fst (Create example_flex example_conn
                         ([], example_model\<lparr>ManagedLoginTermsID := Unknown\<rparr>)
                         \<lparr>Diagnostics = [], State = None\<rparr>)) = Some data
       \<and> ManagedLoginTermsID data = Value ''18a6b81e-1b5b-4c9d-82c0-123456789012'')
   \<and> HasError (Diagnostics (fst (Create example_flex example_conn_missing
                                   ([], example_model) \<lparr>Diagnostics = [], State = None\<rparr>)))
   \<and> State (fst (Create example_flex example_conn_missing
                    ([], example_model) \<lparr>Diagnostics = [], State = None\<rparr>)) = None"
proof -
  have ok: "\<not> HasError (Diagnostics (fst (Create example_flex example_conn
                         ([], example_model\<lparr>ManagedLoginTermsID := Unknown\<rparr>)
                         \<lparr>Diagnostics = [], State = None\<rparr>)))"
    by (simp add: Create_def Let_def example_flex_def example_conn_def Diagnostics_Append
          Diagnostics_State_Set HasError_Nil)
  have t: "StringToFramework (TermsType.TermsId example_terms)
             = Value ''18a6b81e-1b5b-4c9d-82c0-123456789012''"
    by (simp add: StringToFramework_def example_terms_def)
  show ?thesis
    using ok t
      Create_writes_returned_TermsId
        [of example_flex example_conn "([], example_model\<lparr>ManagedLoginTermsID := Unknown\<rparr>)"
            "\<lparr>Diagnostics = [], State = None\<rparr>"]
      Create_writes_returned_TermsId
        [of example_flex example_conn_missing "([], example_model)"
            "\<lparr>Diagnostics = [], State = None\<rparr>"]
    by (auto simp add: example_conn_def example_conn_missing_def)
qed

text \<open>
  C7. \<open>findManagedLoginTermsByTwoPartKey\<close> makes one \<open>DescribeTerms\<close> call whose input
  carries the user pool ID and the terms ID. Its result is a \<open>NotFoundError\<close> when the
  call fails with a \<open>ResourceNotFoundException\<close>, the error of the call when it fails
  otherwise, an empty-result error when the output or its \<open>Terms\<close> is nil, and the
  \<open>Terms\<close> with a nil error otherwise; exactly one of the two results is nil.
\<close>

theorem findManagedLoginTermsByTwoPartKey_result:
  fixes conn userPoolID termsID
  defines "input \<equiv> \<lparr>DescribeTermsInput.TermsId = Some termsID,
                      DescribeTermsInput.UserPoolId = Some userPoolID\<rparr>"
  defines "r \<equiv> findManagedLoginTermsByTwoPartKey conn userPoolID termsID"
  shows "snd r = [DescribeTermsCall input]
    \<and> (\<forall>out e. DescribeTerms conn input = (out, Some e) \<and> IsA_ResourceNotFoundException (Some e)
          \<longrightarrow> fst r = (None, Some (NotFoundError e (DescribeTermsRequest input))))
    \<and> (\<forall>out e. DescribeTerms conn input = (out, Some e) \<and> \<not> IsA_ResourceNotFoundException (Some e)
          \<longrightarrow> fst r = (None, Some e))
    \<and> (DescribeTerms conn input = (None, None)
          \<longrightarrow> fst r = (None, Some (NewEmptyResultError (DescribeTermsRequest input))))
    \<and> (\<forall>out. DescribeTerms conn input = (Some out, None) \<and> DescribeTermsOutput.Terms out = None
          \<longrightarrow> fst r = (None, Some (NewEmptyResultError (DescribeTermsRequest input))))
    \<and> (\<forall>out terms. DescribeTerms conn input = (Some out, None)
            \<and> DescribeTermsOutput.Terms out = Some terms
          \<longrightarrow> fst r = (Some terms, None))
    \<and> ((fst (fst r) = None) \<noteq> (snd (fst r) = None))"
  unfolding input_def r_def
  by (auto simp add: findManagedLoginTermsByTwoPartKey_def Let_def split: prod.splits option.splits)

theorem findManagedLoginTermsByTwoPartKey_result_witness:
  "fst (findManagedLoginTermsByTwoPartKey example_conn_missing ''us-west-2_rSss9Zltr'' ''t1'') =
     (None, Some (NotFoundError (ResourceNotFoundException ''Terms not found'')
        (DescribeTermsRequest \<lparr>DescribeTermsInput.TermsId = Some ''t1'',
                                DescribeTermsInput.UserPoolId = Some ''us-west-2_rSss9Zltr''\<rparr>)))
   \<and> fst (findManagedLoginTermsByTwoPartKey
            (example_conn\<lparr>DescribeTerms := (\<lambda>i. (None, Some (ApiError ''throttled'')))\<rparr>)
            ''us-west-2_rSss9Zltr'' ''t1'') = (None, Some (ApiError ''throttled''))
   \<and> fst (findManagedLoginTermsByTwoPartKey (example_conn\<lparr>DescribeTerms := (\<lambda>i. (None, None))\<rparr>)
            ''us-west-2_rSss9Zltr'' ''t1'') =
       (None, Some (NewEmptyResultError
          (DescribeTermsRequest \<lparr>DescribeTermsInput.TermsId = Some ''t1'',
                                  DescribeTermsInput.UserPoolId = Some ''us-west-2_rSss9Zltr''\<rparr>)))
   \<and> fst (findManagedLoginTermsByTwoPartKey example_conn ''us-west-2_rSss9Zltr'' ''t1'') =
       (Some example_terms, None)"
  using findManagedLoginTermsByTwoPartKey_result
          [of example_conn_missing "''us-west-2_rSss9Zltr''" "''t1''"]
        findManagedLoginTermsByTwoPartKey_result
          [of "example_conn\<lparr>DescribeTerms := (\<lambda>i. (None, Some (ApiError ''throttled'')))\<rparr>"
              "''us-west-2_rSss9Zltr''" "''t1''"]
        findManagedLoginTermsByTwoPartKey_result
          [of "example_conn\<lparr>DescribeTerms := (\<lambda>i. (None, None))\<rparr>"
              "''us-west-2_rSss9Zltr''" "''t1''"]
        findManagedLoginTermsByTwoPartKey_result
          [of example_conn "''us-west-2_rSss9Zltr''" "''t1''"]
  by (simp add: example_conn_def example_conn_missing_def IsA_ResourceNotFoundException_def)

text \<open>
  C8. The schema validator of \<open>terms_name\<close> accepts a value exactly when it is
  \<open>terms-of-use\<close> or \<open>privacy-policy\<close>.
\<close>

theorem terms_name_accepted_iff:
  "(Validate terms_name_Validators p (Value s) = [])
     = (s = ''terms-of-use'' \<or> s = ''privacy-policy'')"
  by (simp add: Validate_def terms_name_Validators_def RegexMatches_Nil termsName_match)

text \<open>
  C9. When the links attribute is null or unknown, the cross-field validator returns
  with the diagnostics of decoding only: it adds none of its own, so the key
  \<open>cognito:default\<close> is not required then.
\<close>

theorem ValidateResource_links_null_or_unknown:
  assumes "IsUnknown (managedLoginTermsResourceModel.Links (snd cfg))
             \<or> IsNull (managedLoginTermsResourceModel.Links (snd cfg))"
  shows "ValidateResource cfg diags = diags @ fst cfg"
proof (cases cfg)
  case (Pair configDiags config)
  then show ?thesis
    using assms
    by (cases "managedLoginTermsResourceModel.Links config")
       (simp_all add: ValidateResource_def Let_def)
qed

theorem ValidateResource_links_null_or_unknown_witness:
  "ValidateResource ([], example_model\<lparr>managedLoginTermsResourceModel.Links := Unknown\<rparr>) []
     = []
   \<and> ValidateResource ([], example_model\<lparr>managedLoginTermsResourceModel.Links := Null\<rparr>) []
     = []"
  using ValidateResource_links_null_or_unknown
          [of "([], example_model\<lparr>managedLoginTermsResourceModel.Links := Unknown\<rparr>)" "[]"]
        ValidateResource_links_null_or_unknown
          [of "([], example_model\<lparr>managedLoginTermsResourceModel.Links := Null\<rparr>)" "[]"]
  by simp

text \<open>
  C10. \<open>Create\<close> and \<open>Update\<close> leave the state as it was whenever the response holds
  an error diagnostic. Each failure gives such a diagnostic: an error in the response or
  from reading the plan (or, for \<open>Update\<close>, the state), from the expansion, a missing ID
  in the state (\<open>Update\<close>), an error of the API call, a nil output or nil \<open>Terms\<close>, and an
  error from flattening. So on every error path the state is not set.
\<close>

theorem Create_Update_atomic:
  fixes fx conn plan state response
  defines "C \<equiv> fst (Create fx conn plan response)"
    and "U \<equiv> fst (Update fx conn plan state response)"
    and "cin \<equiv> snd (ExpandCreateTerms fx (snd plan))"
    and "uin \<equiv> (snd (ExpandUpdateTerms fx (snd plan)))
                  \<lparr>UpdateTermsInput.TermsId :=
                     Some (ValueString (ManagedLoginTermsID (snd state)))\<rparr>"
  shows "(HasError (Diagnostics C) \<longrightarrow> State C = State response)
    \<and> (HasError (Diagnostics U) \<longrightarrow> State U = State response)
    \<and> (HasError (Diagnostics response @ fst plan)
         \<or> HasError (fst (ExpandCreateTerms fx (snd plan)))
         \<or> snd (CreateTerms conn cin) \<noteq> None
         \<or> fst (CreateTerms conn cin) = None
         \<or> (\<exists>out. fst (CreateTerms conn cin) = Some out
                \<and> (case CreateTermsOutput.Terms out of
                      None \<Rightarrow> True
                    | Some terms \<Rightarrow> HasError (fst (Flatten fx terms (snd plan)))))
        \<longrightarrow> HasError (Diagnostics C))
    \<and> (HasError (Diagnostics response @ fst plan)
         \<or> HasError (fst state)
         \<or> HasError (fst (ExpandUpdateTerms fx (snd plan)))
         \<or> IsNull (ManagedLoginTermsID (snd state))
         \<or> IsUnknown (ManagedLoginTermsID (snd state))
         \<or> snd (UpdateTerms conn uin) \<noteq> None
         \<or> fst (UpdateTerms conn uin) = None
         \<or> (\<exists>out. fst (UpdateTerms conn uin) = Some out
                \<and> (case UpdateTermsOutput.Terms out of
                      None \<Rightarrow> True
                    | Some terms \<Rightarrow> HasError (fst (Flatten fx terms (snd plan)))))
        \<longrightarrow> HasError (Diagnostics U))"
proof -
  have c1: "HasError (Diagnostics C) \<longrightarrow> State C = State response"
    unfolding C_def
    by (auto simp add: Create_def Let_def Diagnostics_Append State_Append
          HasError_AddError State_AddError Diagnostics_State_Set State_State_Set
        split: prod.splits option.splits if_splits)
  have u1: "HasError (Diagnostics U) \<longrightarrow> State U = State response"
    unfolding U_def
    by (auto simp add: Update_def Let_def Diagnostics_Append State_Append
          HasError_AddError State_AddError Diagnostics_State_Set State_State_Set
        split: prod.splits option.splits if_splits)
  have c2: "HasError (Diagnostics response @ fst plan)
         \<or> HasError (fst (ExpandCreateTerms fx (snd plan)))
         \<or> snd (CreateTerms conn cin) \<noteq> None
         \<or> fst (CreateTerms conn cin) = None
         \<or> (\<exists>out. fst (CreateTerms conn cin) = Some out
                \<and> (case CreateTermsOutput.Terms out of
                      None \<Rightarrow> True
                    | Some terms \<Rightarrow> HasError (fst (Flatten fx terms (snd plan)))))
        \<longrightarrow> HasError (Diagnostics C)"
    unfolding C_def cin_def
    by (auto simp add: Create_def Let_def Diagnostics_Append State_Append HasError_append
          HasError_AddError State_AddError Diagnostics_State_Set State_State_Set
        split: prod.splits option.splits if_splits)
  have u2: "HasError (Diagnostics response @ fst plan)
         \<or> HasError (fst state)
         \<or> HasError (fst (ExpandUpdateTerms fx (snd plan)))
         \<or> IsNull (ManagedLoginTermsID (snd state))
         \<or> IsUnknown (ManagedLoginTermsID (snd state))
         \<or> snd (UpdateTerms conn uin) \<noteq> None
         \<or> fst (UpdateTerms conn uin) = None
         \<or> (\<exists>out. fst (UpdateTerms conn uin) = Some out
                \<and> (case UpdateTermsOutput.Terms out of
                      None \<Rightarrow> True
                    | Some terms \<Rightarrow> HasError (fst (Flatten fx terms (snd plan)))))
        \<longrightarrow> HasError (Diagnostics U)"
    unfolding U_def uin_def
    by (cases "ManagedLoginTermsID (snd state)")
       (auto simp add: Update_def Let_def Diagnostics_Append State_Append HasError_append
          HasError_AddError State_AddError Diagnostics_State_Set State_State_Set
        split: prod.splits option.splits if_splits)
  show ?thesis using c1 u1 c2 u2 by blast
qed

theorem Create_Update_atomic_witness:
  "HasError (Diagnostics (fst (Create example_flex example_conn_missing ([], example_model)
                                 example_response)))
   \<and> State (fst (Create example_flex example_conn_missing ([], example_model) example_response))
       = Some example_model
   \<and> HasError (Diagnostics (fst (Update example_flex example_conn_missing ([], example_model)
                                   ([], example_model) example_response)))
   \<and> State (fst (Update example_flex example_conn_missing ([], example_model)
                    ([], example_model) example_response))
       = Some example_model"
proof -
  have c: "HasError (Diagnostics (fst (Create example_flex example_conn_missing
                                         ([], example_model) example_response)))"
    by (simp add: Create_def Let_def example_flex_def example_conn_missing_def
          example_response_def Diagnostics_Append HasError_Nil HasError_AddError)
  have u: "HasError (Diagnostics (fst (Update example_flex example_conn_missing
                                         ([], example_model) ([], example_model)
                                         example_response)))"
    by (simp add: Update_def Let_def example_flex_def example_conn_missing_def
          example_response_def example_model_def Diagnostics_Append HasError_Nil
          HasError_AddError)
  have s: "State example_response = Some example_model"
    by (simp add: example_response_def)
  show ?thesis
    using c u s
      Create_Update_atomic
        [where fx = example_flex and conn = example_conn_missing
           and plan = "([], example_model)" and state = "([], example_model)"
           and response = example_response]
    by simp
qed

end
